theory Spec2Isabelle
  imports Complex_Main "HOL-Library.Word"
begin

section \<open>Numbers, samples and colour strings\<close>

text \<open>
  The component \<^verbatim>\<open>MetalHalftoneCompositor.tsx\<close> computes on JavaScript numbers.
  They are embedded as \<^typ>\<open>real\<close>: every arithmetic step is the exact one, without the
  rounding of IEEE doubles. Where the source can produce \<^verbatim>\<open>NaN\<close> from well-typed input
  (a colour string that \<^verbatim>\<open>parseInt\<close> cannot read), the value is a \<^typ>\<open>real option\<close>
  with \<open>None\<close> for \<^verbatim>\<open>NaN\<close>. Samples of a \<^verbatim>\<open>Uint8ClampedArray\<close> are 8-bit words.
\<close>

type_synonym byte = "8 word"

type_synonym jsnum = "real option"

definition clamp01 :: "real \<Rightarrow> real" where
  "clamp01 v = (if v < 0 then 0 else if v > 1 then 1 else v)"

text \<open>\<^verbatim>\<open>Math.round\<close> rounds halves up, as \<^const>\<open>round\<close> does (\<open>\<lfloor>x + 1/2\<rfloor>\<close>).\<close>

definition clamp255 :: "real \<Rightarrow> int" where
  "clamp255 v = max 0 (min 255 (round (v * 255)))"

text \<open>
  Storing a number into a \<^verbatim>\<open>Uint8ClampedArray\<close>: \<^verbatim>\<open>NaN\<close> becomes 0, other values are
  clamped to 0..255 and rounded to the nearest integer, ties to even.
\<close>

definition roundHalfEven :: "real \<Rightarrow> int" where
  "roundHalfEven v =
     (let f = \<lfloor>v\<rfloor> in
      if v - of_int f < 1 / 2 then f
      else if v - of_int f > 1 / 2 then f + 1
      else if even f then f else f + 1)"

definition toUint8Clamp :: "jsnum \<Rightarrow> byte" where
  "toUint8Clamp n =
     (case n of
        None \<Rightarrow> 0
      | Some v \<Rightarrow> word_of_int (if v \<le> 0 then 0 else if v \<ge> 255 then 255 else roundHalfEven v))"

text \<open>The remainder operator \<^verbatim>\<open>%\<close> on numbers truncates the quotient towards zero.\<close>

definition js_trunc :: "real \<Rightarrow> int" where
  "js_trunc v = (if v \<ge> 0 then \<lfloor>v\<rfloor> else \<lceil>v\<rceil>)"

definition js_rem :: "real \<Rightarrow> real \<Rightarrow> real" where
  "js_rem a b = a - b * of_int (js_trunc (a / b))"

text \<open>
  \<^verbatim>\<open>parseInt(s, 16)\<close> on a string of ASCII characters: leading white space, a sign, the
  prefix \<^verbatim>\<open>0x\<close>, then the longest run of hexadecimal digits; \<^verbatim>\<open>NaN\<close> when that run is
  empty. Strings are lists of characters; the code points beyond ASCII are not modelled.
\<close>

definition hexDigit :: "char \<Rightarrow> nat option" where
  "hexDigit c =
     (let n = (of_char c :: nat) in
      if 48 \<le> n \<and> n \<le> 57 then Some (n - 48)
      else if 97 \<le> n \<and> n \<le> 102 then Some (n - 87)
      else if 65 \<le> n \<and> n \<le> 70 then Some (n - 55)
      else None)"

fun hexDigits :: "string \<Rightarrow> nat list" where
  "hexDigits [] = []"
| "hexDigits (c # cs) = (case hexDigit c of None \<Rightarrow> [] | Some d \<Rightarrow> d # hexDigits cs)"

definition isSpace :: "char \<Rightarrow> bool" where
  "isSpace c = (let n = (of_char c :: nat) in (9 \<le> n \<and> n \<le> 13) \<or> n = 32)"

definition parseInt16 :: "string \<Rightarrow> jsnum" where
  "parseInt16 s =
     (let t = dropWhile isSpace s;
          neg = (case t of [] \<Rightarrow> False | c # r \<Rightarrow> c = CHR ''-'');
          u = (case t of [] \<Rightarrow> t | c # r \<Rightarrow> if c = CHR ''-'' \<or> c = CHR ''+'' then r else t);
          v = (case u of
                 a # b # r \<Rightarrow> if a = CHR ''0'' \<and> (b = CHR ''x'' \<or> b = CHR ''X'') then r else u
               | _ \<Rightarrow> u);
          ds = hexDigits v
      in if ds = [] then None
         else Some ((if neg then - 1 else 1) * real (foldl (\<lambda>acc d. 16 * acc + d) 0 ds)))"

definition slice :: "string \<Rightarrow> nat \<Rightarrow> nat \<Rightarrow> string" where
  "slice s a b = take (b - a) (drop a s)"

definition hexToRgb :: "string \<Rightarrow> jsnum \<times> jsnum \<times> jsnum" where
  "hexToRgb hex =
     (let h = (if length hex \<ge> 7 then hex else ''#000000'');
          r = parseInt16 (slice h 1 3);
          g = parseInt16 (slice h 3 5);
          b = parseInt16 (slice h 5 7)
      in (r, g, b))"

section \<open>Pixel buffers\<close>

text \<open>
  What \<^verbatim>\<open>getImageData(0, 0, width, height)\<close> returns for a canvas: its dimensions and the
  row-major RGBA samples. The platform delivers exactly \<open>4 * width * height\<close> samples
  (\<open>wf_image\<close>); the functions below read and write the list as the source indexes it.
\<close>

record ImageData =
  img_width :: nat
  img_height :: nat
  img_data :: "byte list"

definition wf_image :: "ImageData \<Rightarrow> bool" where
  "wf_image im = (length (img_data im) = 4 * img_width im * img_height im)"

subsection \<open>Tone adjustment\<close>

record ImageAdjustments =
  greyscale :: bool
  exposure :: real
  contrast :: real
  highlights :: real
  shadows :: real
  overlayColor :: string
  overlayOpacity :: real
  noiseEnabled :: bool
  noiseSize :: real
  noiseColor :: string
  noiseOpacity :: real

definition DEFAULT_ADJUSTMENTS :: ImageAdjustments where
  "DEFAULT_ADJUSTMENTS =
     \<lparr>greyscale = False, exposure = 0, contrast = 0, highlights = 0, shadows = 0,
      overlayColor = ''#0d6847'', overlayOpacity = 0, noiseEnabled = False, noiseSize = 2,
      noiseColor = ''#ffffff'', noiseOpacity = 1 / 10\<rparr>"

definition overlayBlend :: "real \<Rightarrow> real \<Rightarrow> real" where
  "overlayBlend base blend =
     (if base < 1 / 2 then 2 * base * blend else 1 - 2 * (1 - base) * (1 - blend))"

text \<open>A colour component divided by 255; \<^verbatim>\<open>NaN\<close> stays \<^verbatim>\<open>NaN\<close>.\<close>

definition unit255 :: "jsnum \<Rightarrow> jsnum" where
  "unit255 c = map_option (\<lambda>v. v / 255) c"

text \<open>Line 119 to 121: the overlay mix of one clamped channel with one overlay component.\<close>

definition overlayMix :: "real \<Rightarrow> real \<Rightarrow> jsnum \<Rightarrow> jsnum" where
  "overlayMix oa c ovl = map_option (\<lambda>ov. c * (1 - oa) + overlayBlend c ov * oa) ovl"

text \<open>Line 129 to 131: the noise mix of one channel with one noise component.\<close>

definition noiseMix :: "real \<Rightarrow> jsnum \<Rightarrow> jsnum \<Rightarrow> jsnum" where
  "noiseMix no c n =
     (case c of
        None \<Rightarrow> None
      | Some cv \<Rightarrow> map_option (\<lambda>nv. cv * (1 - no) + nv * no) n)"

text \<open>Line 125 to 127: the pseudo-random value of the grain cell of pixel \<open>(x, y)\<close>.\<close>

definition noiseValue :: "int \<Rightarrow> nat \<Rightarrow> nat \<Rightarrow> real" where
  "noiseValue grain x y =
     (let gx = \<lfloor>real x / of_int grain\<rfloor>;
          gy = \<lfloor>real y / of_int grain\<rfloor>
      in js_rem (js_rem (sin (of_int gx * 12.9898 + of_int gy * 78.233) * 43758.5453) 1 + 1) 1)"

text \<open>
  Lines 91 to 136 for one pixel at \<open>(x, y)\<close> whose alpha passed the test: from the three
  colour samples read to the three samples written.
\<close>

definition adjustPixel ::
  "ImageAdjustments \<Rightarrow> nat \<Rightarrow> nat \<Rightarrow> byte \<times> byte \<times> byte \<Rightarrow> byte \<times> byte \<times> byte" where
  "adjustPixel adj x y px =
     (case px of (d0, d1, d2) \<Rightarrow>
      let overlayRgb = (if overlayOpacity adj > 0 then hexToRgb (overlayColor adj)
                        else (Some 0, Some 0, Some 0));
          oR = unit255 (fst overlayRgb);
          oG = unit255 (fst (snd overlayRgb));
          oB = unit255 (snd (snd overlayRgb));
          noiseRgb = (if noiseEnabled adj then hexToRgb (noiseColor adj)
                      else (Some 0, Some 0, Some 0));
          nR = unit255 (fst noiseRgb);
          nG = unit255 (fst (snd noiseRgb));
          nB = unit255 (snd (snd noiseRgb));
          grain = max 1 (round (noiseSize adj));
          expFactor = 2 powr exposure adj;
          contrastFactor = 1 + contrast adj;
          r = real (unat d0) / 255;
          g = real (unat d1) / 255;
          b = real (unat d2) / 255;
          lum0 = 0.299 * r + 0.587 * g + 0.114 * b;
          r = (if greyscale adj then lum0 else r);
          g = (if greyscale adj then lum0 else g);
          b = (if greyscale adj then lum0 else b);
          r = r * expFactor;
          g = g * expFactor;
          b = b * expFactor;
          r = (r - 0.5) * contrastFactor + 0.5;
          g = (g - 0.5) * contrastFactor + 0.5;
          b = (b - 0.5) * contrastFactor + 0.5;
          lum = 0.299 * clamp01 r + 0.587 * clamp01 g + 0.114 * clamp01 b;
          hW = max 0 ((lum - 0.5) * 2);
          sW = max 0 ((0.5 - lum) * 2);
          hsMod = highlights adj * hW * 0.5 + shadows adj * sW * 0.5;
          r = r + hsMod;
          g = g + hsMod;
          b = b + hsMod;
          oa = overlayOpacity adj;
          ro = (if overlayOpacity adj > 0 then overlayMix oa (clamp01 r) oR else Some r);
          go = (if overlayOpacity adj > 0 then overlayMix oa (clamp01 g) oG else Some g);
          bo = (if overlayOpacity adj > 0 then overlayMix oa (clamp01 b) oB else Some b);
          no = noiseOpacity adj * noiseValue grain x y;
          rn = (if noiseEnabled adj \<and> noiseOpacity adj > 0 then noiseMix no ro nR else ro);
          gn = (if noiseEnabled adj \<and> noiseOpacity adj > 0 then noiseMix no go nG else go);
          bn = (if noiseEnabled adj \<and> noiseOpacity adj > 0 then noiseMix no bo nB else bo)
      in (toUint8Clamp (map_option (\<lambda>v. of_int (clamp255 v)) rn),
          toUint8Clamp (map_option (\<lambda>v. of_int (clamp255 v)) gn),
          toUint8Clamp (map_option (\<lambda>v. of_int (clamp255 v)) bn)))"

text \<open>The body of the loops of lines 86 to 138 at \<open>(x, y)\<close>, on the sample array.\<close>

definition adjustStep :: "ImageAdjustments \<Rightarrow> nat \<Rightarrow> nat \<Rightarrow> nat \<Rightarrow> byte list \<Rightarrow> byte list" where
  "adjustStep adj w y x d =
     (let i = (y * w + x) * 4 in
      if unat (d ! (i + 3)) < 10 then d
      else (case adjustPixel adj x y (d ! i, d ! (i + 1), d ! (i + 2)) of
              (r, g, b) \<Rightarrow> d[i := r, i + 1 := g, i + 2 := b]))"

definition applyImageAdjustments :: "ImageData \<Rightarrow> ImageAdjustments \<Rightarrow> ImageData" where
  "applyImageAdjustments sourceCanvas adj =
     (let w = img_width sourceCanvas;
          h = img_height sourceCanvas;
          d = fold (\<lambda>y. fold (adjustStep adj w y) [0..<w]) [0..<h] (img_data sourceCanvas)
      in \<lparr>img_width = w, img_height = h, img_data = d\<rparr>)"

subsection \<open>Halftone screening\<close>

record HalftoneParams =
  frequency :: real
  angle :: real
  thickness :: real
  lineColor :: "jsnum \<times> jsnum \<times> jsnum"

text \<open>
  Lines 174 to 179 and 187 to 196: whether pixel \<open>(x, y)\<close> with colour samples \<open>r8, g8, b8\<close>
  lies in the ink band. With \<open>frequency = 0\<close> the line spacing is infinite and the position
  in the period is \<^verbatim>\<open>NaN\<close>, so the comparison of line 196 is false.
\<close>

definition inInkBand :: "HalftoneParams \<Rightarrow> nat \<Rightarrow> nat \<Rightarrow> byte \<Rightarrow> byte \<Rightarrow> byte \<Rightarrow> bool" where
  "inInkBand opts x y r8 g8 b8 =
     (let adjustedAngle = (if js_rem (angle opts) 90 = 0 then angle opts + 0.01 else angle opts);
          angleRad = (adjustedAngle * pi) / 180;
          lineSpacing = max 2 (72 / frequency opts);
          brightness = (0.299 * real (unat r8) + 0.587 * real (unat g8) + 0.114 * real (unat b8)) / 255;
          rx = real x * cos angleRad + real y * sin angleRad;
          posInPeriod = js_rem (js_rem rx lineSpacing + lineSpacing) lineSpacing;
          normalizedPos = posInPeriod / lineSpacing;
          lineWidth = (1 - brightness) * thickness opts;
          distFromCenter = \<bar>normalizedPos - 0.5\<bar> * 2
      in frequency opts \<noteq> 0 \<and> distFromCenter < lineWidth)"

text \<open>The body of the loops of lines 181 to 203 at \<open>(x, y)\<close>.\<close>

definition halftoneStep ::
  "HalftoneParams \<Rightarrow> nat \<Rightarrow> byte list \<Rightarrow> nat \<Rightarrow> nat \<Rightarrow> byte list \<Rightarrow> byte list" where
  "halftoneStep opts w src y x dst =
     (let idx = (y * w + x) * 4;
          srcAlpha = src ! (idx + 3)
      in if unat srcAlpha < 10 then dst
         else if inInkBand opts x y (src ! idx) (src ! (idx + 1)) (src ! (idx + 2))
         then dst[idx := toUint8Clamp (fst (lineColor opts)),
                  idx + 1 := toUint8Clamp (fst (snd (lineColor opts))),
                  idx + 2 := toUint8Clamp (snd (snd (lineColor opts))),
                  idx + 3 := srcAlpha]
         else dst)"

text \<open>Lines 169 to 172: the loop that zeroes the fresh output array, four samples a step.\<close>

definition clearStep :: "nat \<Rightarrow> byte list \<Rightarrow> byte list" where
  "clearStep k dst = dst[4 * k := 0, 4 * k + 1 := 0, 4 * k + 2 := 0, 4 * k + 3 := 0]"

definition applyLinearHalftone :: "ImageData \<Rightarrow> HalftoneParams \<Rightarrow> ImageData" where
  "applyLinearHalftone sourceCanvas opts =
     (let w = img_width sourceCanvas;
          h = img_height sourceCanvas;
          src = img_data sourceCanvas;
          created = replicate (4 * w * h) (0 :: byte);
          cleared = fold clearStep [0..<(length created + 3) div 4] created;
          dst = fold (\<lambda>y. fold (halftoneStep opts w src y) [0..<w]) [0..<h] cleared
      in \<lparr>img_width = w, img_height = h, img_data = dst\<rparr>)"

section \<open>Masks and their geometry\<close>

datatype Shape = Rectangle | Circle | Triangle

record Mask =
  mask_shape :: Shape
  mask_x :: real
  mask_y :: real
  mask_width :: real
  mask_height :: real
  mask_id :: int

datatype DragState =
  Move (drag_index: nat) (offsetX: real) (offsetY: real)
| Resize (drag_index: nat) (anchorX: real) (anchorY: real)

datatype HandleId = TL | TR | BL | BR

record HandlePosition =
  hp_x :: real
  hp_y :: real
  hp_pos :: HandleId

definition getHandlePositions :: "Mask \<Rightarrow> real \<Rightarrow> HandlePosition list" where
  "getHandlePositions msk cs =
     (let cx = mask_x msk * cs; cy = mask_y msk * cs;
          w = mask_width msk * cs; h = mask_height msk * cs
      in [\<lparr>hp_x = cx - w / 2, hp_y = cy - h / 2, hp_pos = TL\<rparr>,
          \<lparr>hp_x = cx + w / 2, hp_y = cy - h / 2, hp_pos = TR\<rparr>,
          \<lparr>hp_x = cx - w / 2, hp_y = cy + h / 2, hp_pos = BL\<rparr>,
          \<lparr>hp_x = cx + w / 2, hp_y = cy + h / 2, hp_pos = BR\<rparr>])"

text \<open>
  The hit test of lines 613 to 626. A division by zero gives an infinity or \<^verbatim>\<open>NaN\<close> in the
  source, and every comparison of the result with them is false there: a circle with a zero
  radius and a triangle with \<open>d = 0\<close> contain no point.
\<close>

definition isPointInMask :: "real \<Rightarrow> real \<Rightarrow> Mask \<Rightarrow> real \<Rightarrow> bool" where
  "isPointInMask px py msk cs =
     (let cx = mask_x msk * cs; cy = mask_y msk * cs;
          w = mask_width msk * cs; h = mask_height msk * cs
      in case mask_shape msk of
           Rectangle \<Rightarrow>
             px \<ge> cx - w / 2 \<and> px \<le> cx + w / 2 \<and> py \<ge> cy - h / 2 \<and> py \<le> cy + h / 2
         | Circle \<Rightarrow>
             (let rx = w / 2; ry = h / 2
              in rx\<^sup>2 \<noteq> 0 \<and> ry\<^sup>2 \<noteq> 0 \<and> (px - cx)\<^sup>2 / rx\<^sup>2 + (py - cy)\<^sup>2 / ry\<^sup>2 \<le> 1)
         | Triangle \<Rightarrow>
             (let x1 = cx; y1 = cy - h / 2;
                  x2 = cx + w / 2; y2 = cy + h / 2;
                  x3 = cx - w / 2; y3 = cy + h / 2;
                  d = (y2 - y3) * (x1 - x3) + (x3 - x2) * (y1 - y3);
                  a = ((y2 - y3) * (px - x3) + (x3 - x2) * (py - y3)) / d;
                  b = ((y3 - y1) * (px - x3) + (x1 - x3) * (py - y3)) / d
              in d \<noteq> 0 \<and> a \<ge> 0 \<and> b \<ge> 0 \<and> (1 - a - b) \<ge> 0))"


text \<open>
  The corner of the bounding box that carries the handle \<open>pos\<close>, in image space, and the
  handle diagonally opposite: the two notions the resize property is stated with.
\<close>

definition corner :: "Mask \<Rightarrow> HandleId \<Rightarrow> real \<times> real" where
  "corner msk pos =
     (case pos of
        TL \<Rightarrow> (mask_x msk - mask_width msk / 2, mask_y msk - mask_height msk / 2)
      | TR \<Rightarrow> (mask_x msk + mask_width msk / 2, mask_y msk - mask_height msk / 2)
      | BL \<Rightarrow> (mask_x msk - mask_width msk / 2, mask_y msk + mask_height msk / 2)
      | BR \<Rightarrow> (mask_x msk + mask_width msk / 2, mask_y msk + mask_height msk / 2))"




section \<open>The drawing surface\<close>

text \<open>
  The source draws through the platform's 2D canvas interface. Its calls are embedded as
  functions on a canvas value: the bitmap is a function from a device position to a colour
  with premultiplied alpha, sampled at points (no anti-aliasing), and a call changes it as
  the Porter-Duff operator in force prescribes. The only transform the source sets is a
  uniform scale.
\<close>

type_synonym point = "real \<times> real"

type_synonym rgba = "real \<times> real \<times> real \<times> real"

definition transparent :: rgba where
  "transparent = (0, 0, 0, 0)"

definition alphaOf :: "rgba \<Rightarrow> real" where
  "alphaOf c = snd (snd (snd c))"

definition scaleRgba :: "real \<Rightarrow> rgba \<Rightarrow> rgba" where
  "scaleRgba k c = (case c of (r, g, b, a) \<Rightarrow> (k * r, k * g, k * b, k * a))"

definition addRgba :: "rgba \<Rightarrow> rgba \<Rightarrow> rgba" where
  "addRgba c1 c2 =
     (case c1 of (r1, g1, b1, a1) \<Rightarrow> case c2 of (r2, g2, b2, a2) \<Rightarrow>
        (r1 + r2, g1 + g2, b1 + b2, a1 + a2))"

datatype CompositeOp = SourceOver | DestinationOut | DestinationOver

text \<open>\<open>composite op dst src\<close>: the new colour of a position that held \<open>dst\<close>.\<close>

definition composite :: "CompositeOp \<Rightarrow> rgba \<Rightarrow> rgba \<Rightarrow> rgba" where
  "composite op dst src =
     (case op of
        SourceOver \<Rightarrow> addRgba src (scaleRgba (1 - alphaOf src) dst)
      | DestinationOver \<Rightarrow> addRgba dst (scaleRgba (1 - alphaOf dst) src)
      | DestinationOut \<Rightarrow> scaleRgba (1 - alphaOf src) dst)"

text \<open>
  A style string in hexadecimal notation (\<^verbatim>\<open>#rgb\<close>, \<^verbatim>\<open>#rgba\<close>, \<^verbatim>\<open>#rrggbb\<close>, \<^verbatim>\<open>#rrggbbaa\<close>) as
  a premultiplied colour; \<open>None\<close> for a string the platform does not accept as a colour.
  Every fill style of the source is of this form.
\<close>

definition premultiplied :: "nat \<Rightarrow> nat \<Rightarrow> nat \<Rightarrow> nat \<Rightarrow> rgba" where
  "premultiplied r g b a =
     (real r / 255 * (real a / 255), real g / 255 * (real a / 255),
      real b / 255 * (real a / 255), real a / 255)"

definition parseColor :: "string \<Rightarrow> rgba option" where
  "parseColor s =
     (case s of
        [] \<Rightarrow> None
      | c # ds \<Rightarrow>
          if c \<noteq> CHR ''#'' then None
          else (case map hexDigit ds of
                  [Some r, Some g, Some b] \<Rightarrow> Some (premultiplied (17 * r) (17 * g) (17 * b) 255)
                | [Some r, Some g, Some b, Some a] \<Rightarrow>
                    Some (premultiplied (17 * r) (17 * g) (17 * b) (17 * a))
                | [Some r1, Some r2, Some g1, Some g2, Some b1, Some b2] \<Rightarrow>
                    Some (premultiplied (16 * r1 + r2) (16 * g1 + g2) (16 * b1 + b2) 255)
                | [Some r1, Some r2, Some g1, Some g2, Some b1, Some b2, Some a1, Some a2] \<Rightarrow>
                    Some (premultiplied (16 * r1 + r2) (16 * g1 + g2) (16 * b1 + b2) (16 * a1 + a2))
                | _ \<Rightarrow> None))"

text \<open>
  A closed subpath, in device coordinates. The source builds three kinds: \<^verbatim>\<open>rect\<close>,
  a full \<^verbatim>\<open>ellipse\<close> without rotation, and a triangle by
  \<^verbatim>\<open>moveTo\<close>, \<^verbatim>\<open>lineTo\<close>, \<^verbatim>\<open>lineTo\<close>, \<^verbatim>\<open>closePath\<close>.
\<close>

datatype Subpath =
  RectPath real real real real
| EllipsePath real real real real
| TrianglePath point point point

definition cross :: "point \<Rightarrow> point \<Rightarrow> point \<Rightarrow> real" where
  "cross a b p = (fst b - fst a) * (snd p - snd a) - (snd b - snd a) * (fst p - fst a)"

fun inside :: "Subpath \<Rightarrow> point \<Rightarrow> bool" where
  "inside (RectPath x y w h) p =
     (min x (x + w) \<le> fst p \<and> fst p \<le> max x (x + w) \<and>
      min y (y + h) \<le> snd p \<and> snd p \<le> max y (y + h))"
| "inside (EllipsePath cx cy rx ry) p =
     (rx \<noteq> 0 \<and> ry \<noteq> 0 \<and> ((fst p - cx) / rx)\<^sup>2 + ((snd p - cy) / ry)\<^sup>2 \<le> 1)"
| "inside (TrianglePath a b c) p =
     (let d1 = cross a b p; d2 = cross b c p; d3 = cross c a p
      in \<not> ((d1 < 0 \<or> d2 < 0 \<or> d3 < 0) \<and> (d1 > 0 \<or> d2 > 0 \<or> d3 > 0)))"

fun scaleSubpath :: "real \<Rightarrow> Subpath \<Rightarrow> Subpath" where
  "scaleSubpath k (RectPath x y w h) = RectPath (k * x) (k * y) (k * w) (k * h)"
| "scaleSubpath k (EllipsePath cx cy rx ry) = EllipsePath (k * cx) (k * cy) (k * rx) (k * ry)"
| "scaleSubpath k (TrianglePath a b c) =
     TrianglePath (k * fst a, k * snd a) (k * fst b, k * snd b) (k * fst c, k * snd c)"

text \<open>The part of the context's state that \<^verbatim>\<open>save\<close> pushes and \<^verbatim>\<open>restore\<close> pops.\<close>

record DrawState =
  ds_scale :: real
  ds_clip :: "point \<Rightarrow> bool"
  globalCompositeOperation :: CompositeOp
  fillStyle :: rgba
  strokeStyle :: string
  lineWidth :: real
  lineDash :: "real list"

definition defaultDrawState :: DrawState where
  "defaultDrawState =
     \<lparr>ds_scale = 1, ds_clip = (\<lambda>p. True), globalCompositeOperation = SourceOver,
      fillStyle = (0, 0, 0, 1), strokeStyle = ''#000000'', lineWidth = 1, lineDash = []\<rparr>"

record Canvas =
  cv_width :: nat
  cv_height :: nat
  bitmap :: "point \<Rightarrow> rgba"
  has2d :: bool
  cv_state :: DrawState
  cv_saved :: "DrawState list"
  cv_path :: "Subpath list"

text \<open>
  How the platform rasterises a stroke is not in the source: it is a parameter, the
  premultiplied colour that stroking the given subpaths with a style, a line width, a dash
  list and a scale contributes at each device position.
\<close>

type_synonym StrokePaint = "string \<Rightarrow> real \<Rightarrow> real list \<Rightarrow> real \<Rightarrow> Subpath list \<Rightarrow> point \<Rightarrow> rgba"

definition createCanvas :: "nat \<Rightarrow> nat \<Rightarrow> Canvas" where
  "createCanvas w h =
     \<lparr>cv_width = w, cv_height = h, bitmap = (\<lambda>p. transparent), has2d = True,
      cv_state = defaultDrawState, cv_saved = [], cv_path = []\<rparr>"

text \<open>Assigning \<^verbatim>\<open>canvas.width\<close> or \<^verbatim>\<open>canvas.height\<close> clears the bitmap and resets the context.\<close>

definition setCanvasWidth :: "Canvas \<Rightarrow> nat \<Rightarrow> Canvas" where
  "setCanvasWidth c w =
     c\<lparr>cv_width := w, bitmap := (\<lambda>p. transparent), cv_state := defaultDrawState,
       cv_saved := [], cv_path := []\<rparr>"

definition setCanvasHeight :: "Canvas \<Rightarrow> nat \<Rightarrow> Canvas" where
  "setCanvasHeight c h =
     c\<lparr>cv_height := h, bitmap := (\<lambda>p. transparent), cv_state := defaultDrawState,
       cv_saved := [], cv_path := []\<rparr>"

definition inBounds :: "Canvas \<Rightarrow> point \<Rightarrow> bool" where
  "inBounds c p =
     (0 \<le> fst p \<and> fst p < real (cv_width c) \<and> 0 \<le> snd p \<and> snd p < real (cv_height c))"

text \<open>The picture a canvas shows: its bitmap within its bounds.\<close>

definition imageOf :: "Canvas \<Rightarrow> point \<Rightarrow> rgba" where
  "imageOf c p = (if inBounds c p then bitmap c p else transparent)"

text \<open>The user-space position of a device position under the current scale.\<close>

definition toUser :: "Canvas \<Rightarrow> point \<Rightarrow> point" where
  "toUser c p = (fst p / ds_scale (cv_state c), snd p / ds_scale (cv_state c))"

definition inRect :: "real \<Rightarrow> real \<Rightarrow> real \<Rightarrow> real \<Rightarrow> point \<Rightarrow> bool" where
  "inRect x y w h u = (x \<le> fst u \<and> fst u < x + w \<and> y \<le> snd u \<and> snd u < y + h)"

text \<open>Painting a source colour over a region, under the clip and the operator in force.\<close>

definition paint :: "Canvas \<Rightarrow> (point \<Rightarrow> bool) \<Rightarrow> (point \<Rightarrow> rgba) \<Rightarrow> Canvas" where
  "paint c region src =
     c\<lparr>bitmap := (\<lambda>p. if inBounds c p \<and> ds_clip (cv_state c) p \<and> region p
                        then composite (globalCompositeOperation (cv_state c)) (bitmap c p) (src p)
                        else bitmap c p)\<rparr>"

definition setTransform :: "Canvas \<Rightarrow> real \<Rightarrow> Canvas" where
  "setTransform c k = c\<lparr>cv_state := (cv_state c)\<lparr>ds_scale := k\<rparr>\<rparr>"

definition setGlobalCompositeOperation :: "Canvas \<Rightarrow> CompositeOp \<Rightarrow> Canvas" where
  "setGlobalCompositeOperation c op = c\<lparr>cv_state := (cv_state c)\<lparr>globalCompositeOperation := op\<rparr>\<rparr>"

text \<open>Assigning a string that is no colour to \<^verbatim>\<open>fillStyle\<close> leaves the style as it was.\<close>

definition setFillStyle :: "Canvas \<Rightarrow> string \<Rightarrow> Canvas" where
  "setFillStyle c s =
     (case parseColor s of
        None \<Rightarrow> c
      | Some col \<Rightarrow> c\<lparr>cv_state := (cv_state c)\<lparr>fillStyle := col\<rparr>\<rparr>)"

definition setStrokeStyle :: "Canvas \<Rightarrow> string \<Rightarrow> Canvas" where
  "setStrokeStyle c s = c\<lparr>cv_state := (cv_state c)\<lparr>strokeStyle := s\<rparr>\<rparr>"

definition setLineWidth :: "Canvas \<Rightarrow> real \<Rightarrow> Canvas" where
  "setLineWidth c v = c\<lparr>cv_state := (cv_state c)\<lparr>lineWidth := v\<rparr>\<rparr>"

definition setLineDash :: "Canvas \<Rightarrow> real list \<Rightarrow> Canvas" where
  "setLineDash c v = c\<lparr>cv_state := (cv_state c)\<lparr>lineDash := v\<rparr>\<rparr>"

definition save :: "Canvas \<Rightarrow> Canvas" where
  "save c = c\<lparr>cv_saved := cv_state c # cv_saved c\<rparr>"

definition restore :: "Canvas \<Rightarrow> Canvas" where
  "restore c = (case cv_saved c of [] \<Rightarrow> c | g # rest \<Rightarrow> c\<lparr>cv_state := g, cv_saved := rest\<rparr>)"

definition clearRect :: "Canvas \<Rightarrow> real \<Rightarrow> real \<Rightarrow> real \<Rightarrow> real \<Rightarrow> Canvas" where
  "clearRect c x y w h =
     c\<lparr>bitmap := (\<lambda>p. if inBounds c p \<and> ds_clip (cv_state c) p \<and> inRect x y w h (toUser c p)
                        then transparent else bitmap c p)\<rparr>"

definition fillRect :: "Canvas \<Rightarrow> real \<Rightarrow> real \<Rightarrow> real \<Rightarrow> real \<Rightarrow> Canvas" where
  "fillRect c x y w h =
     paint c (\<lambda>p. inRect x y w h (toUser c p)) (\<lambda>p. fillStyle (cv_state c))"

text \<open>\<^verbatim>\<open>drawImage(image, dx, dy, dw, dh)\<close>: the whole source image scaled into the rectangle.\<close>

definition drawImageScaled :: "Canvas \<Rightarrow> Canvas \<Rightarrow> real \<Rightarrow> real \<Rightarrow> real \<Rightarrow> real \<Rightarrow> Canvas" where
  "drawImageScaled c img dx dy dw dh =
     paint c (\<lambda>p. inRect dx dy dw dh (toUser c p))
       (\<lambda>p. imageOf img ((fst (toUser c p) - dx) * real (cv_width img) / dw,
                           (snd (toUser c p) - dy) * real (cv_height img) / dh))"

text \<open>\<^verbatim>\<open>drawImage(image, dx, dy)\<close>: the source image at its own size.\<close>

definition drawImage :: "Canvas \<Rightarrow> Canvas \<Rightarrow> real \<Rightarrow> real \<Rightarrow> Canvas" where
  "drawImage c img dx dy =
     drawImageScaled c img dx dy (real (cv_width img)) (real (cv_height img))"

definition beginPath :: "Canvas \<Rightarrow> Canvas" where
  "beginPath c = c\<lparr>cv_path := []\<rparr>"

definition addSubpath :: "Canvas \<Rightarrow> Subpath \<Rightarrow> Canvas" where
  "addSubpath c sp = c\<lparr>cv_path := cv_path c @ [scaleSubpath (ds_scale (cv_state c)) sp]\<rparr>"

definition inPath :: "Canvas \<Rightarrow> point \<Rightarrow> bool" where
  "inPath c p = list_ex (\<lambda>sp. inside sp p) (cv_path c)"

definition fill :: "Canvas \<Rightarrow> Canvas" where
  "fill c = paint c (inPath c) (\<lambda>p. fillStyle (cv_state c))"

definition clip :: "Canvas \<Rightarrow> Canvas" where
  "clip c = c\<lparr>cv_state := (cv_state c)\<lparr>ds_clip := (\<lambda>p. ds_clip (cv_state c) p \<and> inPath c p)\<rparr>\<rparr>"

definition stroke :: "StrokePaint \<Rightarrow> Canvas \<Rightarrow> Canvas" where
  "stroke sp c =
     paint c (\<lambda>p. True)
       (sp (strokeStyle (cv_state c)) (lineWidth (cv_state c)) (lineDash (cv_state c))
           (ds_scale (cv_state c)) (cv_path c))"

definition strokeRect :: "StrokePaint \<Rightarrow> Canvas \<Rightarrow> real \<Rightarrow> real \<Rightarrow> real \<Rightarrow> real \<Rightarrow> Canvas" where
  "strokeRect sp c x y w h =
     paint c (\<lambda>p. True)
       (sp (strokeStyle (cv_state c)) (lineWidth (cv_state c)) (lineDash (cv_state c))
           (ds_scale (cv_state c)) [scaleSubpath (ds_scale (cv_state c)) (RectPath x y w h)])"

text \<open>Lines 210 to 223: the subpath of one msk at scale \<open>s\<close>, added to the current path.\<close>

definition drawMaskShape :: "Canvas \<Rightarrow> Mask \<Rightarrow> real \<Rightarrow> Canvas" where
  "drawMaskShape ctx msk s =
     (let cx = mask_x msk * s; cy = mask_y msk * s;
          w = mask_width msk * s; h = mask_height msk * s
      in case mask_shape msk of
           Rectangle \<Rightarrow> addSubpath ctx (RectPath (cx - w / 2) (cy - h / 2) w h)
         | Circle \<Rightarrow> addSubpath ctx (EllipsePath cx cy (w / 2) (h / 2))
         | Triangle \<Rightarrow>
             addSubpath ctx
               (TrianglePath (cx, cy - h / 2) (cx + w / 2, cy + h / 2) (cx - w / 2, cy + h / 2)))"

section \<open>The component's state and its event handlers\<close>

datatype MaskContent = Halftone | Metal

record Size =
  size_width :: nat
  size_height :: nat

text \<open>
  The state the handlers and the two compositing functions read: the React state of lines
  288 to 306 with the main canvas and the re-entrancy flag of lines 308 to 314. The
  adjusted and the halftone canvas are kept as drawing surfaces, as \<^verbatim>\<open>drawImage\<close> sees them.
\<close>

record State =
  mainCanvas :: "Canvas option"
  imageCanvas :: "Canvas option"
  halftoneCanvas :: "Canvas option"
  masks :: "Mask list"
  selectedMask :: "nat option"
  dragState :: "DragState option"
  maskContent :: MaskContent
  bgColor :: string
  transparentBg :: bool
  canvasSize :: Size
  zoom :: real
  exportScale :: nat
  imageLoaded :: bool
  isProcessing :: bool

text \<open>Lines 343 to 354: what loading an image of \<open>w\<close> by \<open>h\<close> pixels does to this state.\<close>

definition imageOnload :: "State \<Rightarrow> nat \<Rightarrow> nat \<Rightarrow> State" where
  "imageOnload st w h =
     st\<lparr>canvasSize := \<lparr>size_width = w, size_height = h\<rparr>, masks := [],
        selectedMask := None, zoom := 1, imageLoaded := True\<rparr>"

text \<open>\<^verbatim>\<open>prev.filter((_, i) => i !== index)\<close>\<close>

definition filterIndex :: "nat \<Rightarrow> 'a list \<Rightarrow> 'a list" where
  "filterIndex index prev = map snd (filter (\<lambda>p. fst p \<noteq> index) (enumerate 0 prev))"

text \<open>Lines 628 to 638; \<open>now\<close> is the value of \<^verbatim>\<open>Date.now()\<close>.\<close>

definition addMask :: "State \<Rightarrow> Shape \<Rightarrow> int \<Rightarrow> State" where
  "addMask st shape now =
     (let cs = canvasSize st;
          newMasks = masks st @
            [\<lparr>mask_shape = shape, mask_x = real (size_width cs) / 2,
              mask_y = real (size_height cs) / 2,
              mask_width = real (size_width cs) * 0.35,
              mask_height = real (size_height cs) * 0.35, mask_id = now\<rparr>]
      in st\<lparr>masks := newMasks, selectedMask := Some (length newMasks - 1)\<rparr>)"

text \<open>Lines 640 to 644.\<close>

definition deleteMask :: "State \<Rightarrow> nat \<Rightarrow> State" where
  "deleteMask st index =
     (let st1 = st\<lparr>masks := filterIndex index (masks st)\<rparr>
      in if selectedMask st = Some index then st1\<lparr>selectedMask := None\<rparr>
         else (case selectedMask st of
                 None \<Rightarrow> st1
               | Some sel \<Rightarrow> if sel > index then st1\<lparr>selectedMask := Some (sel - 1)\<rparr> else st1))"




definition handleMouseUp :: "State \<Rightarrow> State" where
  "handleMouseUp st = st\<lparr>dragState := None\<rparr>"

section \<open>Compositing\<close>

text \<open>The values \<open>0, 8, 16, ...\<close> below \<open>bound\<close> that the loops of lines 499 and 500 run through.\<close>

definition tileStarts :: "real \<Rightarrow> real list" where
  "tileStarts bound = map (\<lambda>k. 8 * real k) [0..<nat \<lceil>bound / 8\<rceil>]"

text \<open>
  Lines 427 to 537, the frame callback of \<^verbatim>\<open>renderComposite\<close>, on the main canvas and the
  adjusted canvas that \<^verbatim>\<open>renderComposite\<close> captured. \<open>clientWidth\<close> is the canvas element's
  layout width and \<open>devicePixelRatio\<close> the window's.
\<close>

definition renderFrame ::
  "StrokePaint \<Rightarrow> real \<Rightarrow> nat \<Rightarrow> Canvas \<Rightarrow> Canvas \<Rightarrow> State \<Rightarrow> State" where
  "renderFrame sp devicePixelRatio clientWidth canvas imgCvs st =
     (if \<not> has2d canvas then st\<lparr>isProcessing := False\<rparr>
      else
        let cSize = canvasSize st;
            displayWidth = real clientWidth;
            dpr = (if devicePixelRatio = 0 then 1 else devicePixelRatio);
            targetW = round (displayWidth * dpr);
            targetH = round ((real (size_height cSize) / real (size_width cSize)) * displayWidth * dpr);
            ctx = (if int (cv_width canvas) \<noteq> targetW \<or> int (cv_height canvas) \<noteq> targetH
                   then setCanvasHeight (setCanvasWidth canvas (nat targetW)) (nat targetH)
                   else canvas);
            ctx = setTransform ctx dpr;
            drawW = displayWidth;
            drawH = (real (size_height cSize) / real (size_width cSize)) * displayWidth;
            cs = drawW / real (size_width cSize);
            currentMasks = masks st;
            htCvs = halftoneCanvas st;
            ctx = clearRect ctx 0 0 drawW drawH;
            baseCanvas = (if maskContent st = Halftone then Some imgCvs else htCvs);
            maskedCanvas = (if maskContent st = Halftone then htCvs else Some imgCvs);
            ctx =
              (if length currentMasks > 0 then
                 let maskCvs = createCanvas (nat (round drawW)) (nat (round drawH));
                     maskCtx = setFillStyle maskCvs ''#fff'';
                     maskCtx = fold (\<lambda>m c. fill (drawMaskShape (beginPath c) m cs)) currentMasks maskCtx;
                     ctx = (case baseCanvas of
                              None \<Rightarrow> ctx
                            | Some bc \<Rightarrow>
                                (let ctx = drawImageScaled ctx bc 0 0 drawW drawH;
                                     ctx = setGlobalCompositeOperation ctx DestinationOut;
                                     ctx = drawImage ctx maskCtx 0 0
                                 in setGlobalCompositeOperation ctx SourceOver));
                     ctx = (case maskedCanvas of
                              None \<Rightarrow> ctx
                            | Some mc \<Rightarrow>
                                (let ctx = save ctx;
                                     ctx = setGlobalCompositeOperation ctx DestinationOver;
                                     ctx = beginPath ctx;
                                     ctx = fold (\<lambda>m c. drawMaskShape c m cs) currentMasks ctx;
                                     ctx = clip ctx;
                                     ctx = drawImageScaled ctx mc 0 0 drawW drawH;
                                     ctx = restore ctx
                                 in setGlobalCompositeOperation ctx SourceOver))
                 in ctx
               else (case baseCanvas of
                       None \<Rightarrow> ctx
                     | Some bc \<Rightarrow> drawImageScaled ctx bc 0 0 drawW drawH));
            ctx =
              (if transparentBg st then
                 let ctx = save ctx;
                     ctx = setGlobalCompositeOperation ctx DestinationOver;
                     ctx = fold (\<lambda>ty. fold (\<lambda>tx c.
                                  fillRect
                                    (setFillStyle c
                                       (if (\<lfloor>tx / 8\<rfloor> + \<lfloor>ty / 8\<rfloor>) mod 2 = 0 then ''#141414''
                                        else ''#0a0a0a''))
                                    tx ty 8 8) (tileStarts drawW)) (tileStarts drawH) ctx
                 in restore ctx
               else
                 let ctx = save ctx;
                     ctx = setGlobalCompositeOperation ctx DestinationOver;
                     ctx = setFillStyle ctx (bgColor st);
                     ctx = fillRect ctx 0 0 drawW drawH
                 in restore ctx);
            ctx = setGlobalCompositeOperation ctx SourceOver;
            ctx =
              (case selectedMask st of
                 None \<Rightarrow> ctx
               | Some currentSelected \<Rightarrow>
                   if currentSelected < length currentMasks then
                     let msk = currentMasks ! currentSelected;
                         ctx = save ctx;
                         ctx = setStrokeStyle ctx ''rgba(100,141,255,0.6)'';
                         ctx = setLineWidth ctx 1;
                         ctx = setLineDash ctx [5, 4];
                         ctx = beginPath ctx;
                         ctx = drawMaskShape ctx msk cs;
                         ctx = stroke sp ctx;
                         ctx = setLineDash ctx [];
                         ctx = fold (\<lambda>h c.
                                  let c = setFillStyle c ''#ededed'';
                                      c = fillRect c (hp_x h - 4) (hp_y h - 4) 8 8;
                                      c = setStrokeStyle c ''#648dff'';
                                      c = setLineWidth c 1
                                  in strokeRect sp c (hp_x h - 4) (hp_y h - 4) 8 8)
                                (getHandlePositions msk cs) ctx
                     in restore ctx
                   else ctx)
        in st\<lparr>mainCanvas := Some ctx, isProcessing := False\<rparr>)"



section \<open>The initial state\<close>

text \<open>Lines 288 to 306: the state of a freshly mounted component, before any canvas exists.\<close>

definition initialState :: State where
  "initialState =
     \<lparr>mainCanvas = None, imageCanvas = None, halftoneCanvas = None, masks = [],
      selectedMask = None, dragState = None, maskContent = Halftone, bgColor = ''#0d6847'',
      transparentBg = True, canvasSize = \<lparr>size_width = 800, size_height = 800\<rparr>, zoom = 1,
      exportScale = 2, imageLoaded = False, isProcessing = False\<rparr>"

section \<open>Sample inputs\<close>


text \<open>A 200 by 200 image after three presses on the shape buttons.\<close>

definition threeMasks :: State where
  "threeMasks =
     addMask (addMask (addMask (imageOnload initialState 200 200) Rectangle 1) Circle 2) Triangle 3"

text \<open>One-pixel images: a red pixel of alpha 5, an opaque black and an opaque grey one.\<close>

definition lowAlphaPixel :: ImageData where
  "lowAlphaPixel = \<lparr>img_width = 1, img_height = 1, img_data = [255, 0, 0, 5]\<rparr>"

definition blackPixel :: ImageData where
  "blackPixel = \<lparr>img_width = 1, img_height = 1, img_data = [0, 0, 0, 255]\<rparr>"

definition greyPixel :: ImageData where
  "greyPixel = \<lparr>img_width = 1, img_height = 1, img_data = [100, 100, 100, 255]\<rparr>"

text \<open>
  Lines 294 to 296 and 381 to 384: the initial halftone options, as the effect passes them
  to \<open>applyLinearHalftone\<close>; and the same with the thickest line the slider allows.
\<close>

definition defaultHalftone :: HalftoneParams where
  "defaultHalftone =
     \<lparr>frequency = 20, angle = 90, thickness = 0.8, lineColor = hexToRgb ''#ffffff''\<rparr>"

definition thickHalftone :: HalftoneParams where
  "thickHalftone = defaultHalftone\<lparr>thickness := 1.5\<rparr>"

section \<open>Notions used to compare the two compositing functions\<close>

text \<open>The subpath that \<open>drawMaskShape\<close> adds for a mask at scale \<open>s\<close>, before the transform.\<close>

definition maskSubpath :: "Mask \<Rightarrow> real \<Rightarrow> Subpath" where
  "maskSubpath msk s =
     (let cx = mask_x msk * s; cy = mask_y msk * s;
          w = mask_width msk * s; h = mask_height msk * s
      in case mask_shape msk of
           Rectangle \<Rightarrow> RectPath (cx - w / 2) (cy - h / 2) w h
         | Circle \<Rightarrow> EllipsePath cx cy (w / 2) (h / 2)
         | Triangle \<Rightarrow> TrianglePath (cx, cy - h / 2) (cx + w / 2, cy + h / 2) (cx - w / 2, cy + h / 2))"

text \<open>
  The drawing state in which a frame leaves the main context: no clip, source-over, the
  default fill style. Every style or clip that a frame sets, it sets between \<^verbatim>\<open>save\<close> and
  \<^verbatim>\<open>restore\<close>: \<open>renderFrame_keeps_idle\<close> below.
\<close>

definition idleContext :: "Canvas \<Rightarrow> bool" where
  "idleContext c =
     (ds_clip (cv_state c) = (\<lambda>p. True) \<and>
      globalCompositeOperation (cv_state c) = SourceOver \<and>
      fillStyle (cv_state c) = (0, 0, 0, 1))"

text \<open>
  Lines 460 to 493 and lines 662 to 687 as one function of what differs between them: the
  context drawn on, the two layers, the size of the stencil canvas, the size drawn to and
  the scale of the masks. \<open>renderFrame_blocks\<close> and \<open>exportImage_blocks\<close> below show that
  each of the two functions, as transcribed above, runs exactly this.
\<close>

definition layerPass ::
  "Canvas \<Rightarrow> Canvas option \<Rightarrow> Canvas option \<Rightarrow> Mask list \<Rightarrow> nat \<Rightarrow> nat \<Rightarrow> real \<Rightarrow> real \<Rightarrow> real \<Rightarrow> Canvas" where
  "layerPass ctx0 baseCanvas maskedCanvas currentMasks mw mh dw dh s =
     (if length currentMasks > 0 then
        let maskCvs = createCanvas mw mh;
            maskCtx = setFillStyle maskCvs ''#fff'';
            maskCtx = fold (\<lambda>m c. fill (drawMaskShape (beginPath c) m s)) currentMasks maskCtx;
            ctx = (case baseCanvas of
                     None \<Rightarrow> ctx0
                   | Some bc \<Rightarrow>
                       (let ctx = drawImageScaled ctx0 bc 0 0 dw dh;
                            ctx = setGlobalCompositeOperation ctx DestinationOut;
                            ctx = drawImage ctx maskCtx 0 0
                        in setGlobalCompositeOperation ctx SourceOver));
            ctx = (case maskedCanvas of
                     None \<Rightarrow> ctx
                   | Some mc \<Rightarrow>
                       (let ctx = save ctx;
                            ctx = setGlobalCompositeOperation ctx DestinationOver;
                            ctx = beginPath ctx;
                            ctx = fold (\<lambda>m c. drawMaskShape c m s) currentMasks ctx;
                            ctx = clip ctx;
                            ctx = drawImageScaled ctx mc 0 0 dw dh;
                            ctx = restore ctx
                        in setGlobalCompositeOperation ctx SourceOver))
        in ctx
      else (case baseCanvas of
              None \<Rightarrow> ctx0
            | Some bc \<Rightarrow> drawImageScaled ctx0 bc 0 0 dw dh))"






section \<open>Selection and the mask list\<close>





lemma threeMasks_selected: "selectedMask threeMasks = Some 2"
  by (simp add: threeMasks_def addMask_def imageOnload_def initialState_def Let_def)

text \<open>
  C7. Deleting the mask at index \<open>k\<close> clears the selection when the selection is \<open>k\<close>,
  lowers it by one when it is some \<open>j > k\<close>, and leaves it when it is some \<open>j < k\<close>.
\<close>

theorem deleteMask_selection:
  "(selectedMask st = Some k \<longrightarrow> selectedMask (deleteMask st k) = None) \<and>
   (selectedMask st = Some j \<and> j > k \<longrightarrow> selectedMask (deleteMask st k) = Some (j - 1)) \<and>
   (selectedMask st = Some j \<and> j < k \<longrightarrow> selectedMask (deleteMask st k) = Some j)"
  by (auto simp: deleteMask_def Let_def)

theorem deleteMask_selection_witness:
  "selectedMask (deleteMask threeMasks 2) = None \<and>
   selectedMask (deleteMask threeMasks 0) = Some 1 \<and>
   selectedMask (deleteMask (threeMasks\<lparr>selectedMask := Some 0\<rparr>) 1) = Some 0"
  using deleteMask_selection [of threeMasks 2 2]
    deleteMask_selection [of threeMasks 0 2]
    deleteMask_selection [of "threeMasks\<lparr>selectedMask := Some 0\<rparr>" 1 0]
  by (simp add: threeMasks_selected)

text \<open>
  C10. \<open>addMask\<close> appends the new mask after all earlier ones, centred at the centre of the
  canvas, with 35 percent of the canvas width and height, and selects its index.
\<close>

theorem addMask_appends:
  "masks (addMask st shape now) =
     masks st @ [\<lparr>mask_shape = shape,
                  mask_x = real (size_width (canvasSize st)) / 2,
                  mask_y = real (size_height (canvasSize st)) / 2,
                  mask_width = 35 / 100 * real (size_width (canvasSize st)),
                  mask_height = 35 / 100 * real (size_height (canvasSize st)),
                  mask_id = now\<rparr>] \<and>
   selectedMask (addMask st shape now) = Some (length (masks st)) \<and>
   length (masks (addMask st shape now)) = Suc (length (masks st))"
  by (simp add: addMask_def Let_def)

section \<open>Hit test\<close>

text \<open>
  C8. For a mask of any of the three shapes with width and height at least 20 and a
  positive scale, the hit test holds at the centre of the bounding box.
\<close>

theorem center_hit:
  assumes "mask_width m \<ge> 20" "mask_height m \<ge> 20" "cs > 0"
  shows "isPointInMask (mask_x m * cs) (mask_y m * cs) m cs"
proof (cases "mask_shape m")
  case Rectangle
  with assms show ?thesis by (simp add: isPointInMask_def Let_def)
next
  case Circle
  with assms show ?thesis by (simp add: isPointInMask_def Let_def)
next
  case Triangle
  have w: "mask_width m * cs > 0" and h: "mask_height m * cs > 0"
    using assms by simp_all
  have nz: "mask_width m \<noteq> 0" "mask_height m \<noteq> 0" "cs \<noteq> 0"
    using assms by auto
  with Triangle w h show ?thesis
    by (simp add: isPointInMask_def Let_def field_simps)
qed

theorem center_hit_witness:
  "isPointInMask (100 * 2) (50 * 2)
     \<lparr>mask_shape = Rectangle, mask_x = 100, mask_y = 50, mask_width = 20, mask_height = 30, mask_id = 1\<rparr> 2 \<and>
   isPointInMask (100 * 2) (50 * 2)
     \<lparr>mask_shape = Circle, mask_x = 100, mask_y = 50, mask_width = 20, mask_height = 30, mask_id = 1\<rparr> 2 \<and>
   isPointInMask (100 * 2) (50 * 2)
     \<lparr>mask_shape = Triangle, mask_x = 100, mask_y = 50, mask_width = 20, mask_height = 30, mask_id = 1\<rparr> 2"
  using center_hit [of "\<lparr>mask_shape = Rectangle, mask_x = 100, mask_y = 50, mask_width = 20, mask_height = 30, mask_id = 1\<rparr>" 2]
    center_hit [of "\<lparr>mask_shape = Circle, mask_x = 100, mask_y = 50, mask_width = 20, mask_height = 30, mask_id = 1\<rparr>" 2]
    center_hit [of "\<lparr>mask_shape = Triangle, mask_x = 100, mask_y = 50, mask_width = 20, mask_height = 30, mask_id = 1\<rparr>" 2]
  by simp

section \<open>Resize drag\<close>


lemma corner_is_handle_position:
  "\<lparr>hp_x = fst (corner m pos), hp_y = snd (corner m pos), hp_pos = pos\<rparr> \<in> set (getHandlePositions m 1)"
  by (cases pos) (simp_all add: corner_def getHandlePositions_def Let_def)








section \<open>The minimum size of masks\<close>




section \<open>Pixel loops\<close>

lemma fold2_invariant:
  assumes "\<And>y x s. P s \<Longrightarrow> P (f y x s)" and "P s"
  shows "P (fold (\<lambda>y. fold (f y) xs) ys s)"
proof -
  have inner: "\<And>y s. P s \<Longrightarrow> P (fold (f y) xs s)"
    by (rule fold_invariant [where Q = "\<lambda>_. True"]) (simp_all add: assms(1))
  show ?thesis
    by (rule fold_invariant [where Q = "\<lambda>_. True"]) (simp_all add: inner assms(2))
qed

lemma replicate4: "replicate 4 x = [x, x, x, x]"
  by (simp add: eval_nat_numeral)

lemma update3: "[a, b, c, d][3 := v] = [a, b, c, v]"
  by (simp add: eval_nat_numeral)

lemma hexToRgb_white: "hexToRgb ''#ffffff'' = (Some 255, Some 255, Some 255)"
  by (simp add: hexToRgb_def slice_def parseInt16_def isSpace_def hexDigit_def Let_def)

lemma toUint8Clamp_255: "toUint8Clamp (Some 255) = 255"
  by (simp add: toUint8Clamp_def)

subsection \<open>Tone adjustment\<close>

lemma adjustStep_length: "length (adjustStep adj w y x d) = length d"
  by (simp add: adjustStep_def Let_def split: prod.splits)

lemma adjustStep_other:
  assumes "j \<noteq> (y * w + x) * 4" "j \<noteq> (y * w + x) * 4 + 1" "j \<noteq> (y * w + x) * 4 + 2"
  shows "adjustStep adj w y x d ! j = d ! j"
  using assms by (simp add: adjustStep_def Let_def split: prod.splits)

lemma adjustStep_alpha: "adjustStep adj w y x d ! (4 * p + 3) = d ! (4 * p + 3)"
  by (rule adjustStep_other) presburger+

lemma adjustStep_low_alpha:
  assumes "unat (d ! (4 * p + 3)) < 10" "c < 4"
  shows "adjustStep adj w y x d ! (4 * p + c) = d ! (4 * p + c)"
proof (cases "y * w + x = p")
  case True
  then have "(y * w + x) * 4 + 3 = 4 * p + 3" by simp
  with assms show ?thesis by (simp add: adjustStep_def Let_def)
next
  case False
  show ?thesis
    by (rule adjustStep_other) (use False assms(2) in presburger)+
qed

lemma adjust_low_alpha:
  assumes "unat (img_data im ! (4 * p + 3)) < 10" "c < 4"
  shows "img_data (applyImageAdjustments im adj) ! (4 * p + c) = img_data im ! (4 * p + c)"
proof -
  let ?out = "fold (\<lambda>y. fold (adjustStep adj (img_width im) y) [0..<img_width im])
                [0..<img_height im] (img_data im)"
  have "?out ! (4 * p + 3) = img_data im ! (4 * p + 3) \<and> ?out ! (4 * p + c) = img_data im ! (4 * p + c)"
    by (rule fold2_invariant [where P = "\<lambda>d. d ! (4 * p + 3) = img_data im ! (4 * p + 3)
          \<and> d ! (4 * p + c) = img_data im ! (4 * p + c)"])
       (use assms in \<open>simp_all add: adjustStep_alpha adjustStep_low_alpha\<close>)
  then show ?thesis by (simp add: applyImageAdjustments_def Let_def)
qed

text \<open>
  C9. \<open>applyImageAdjustments\<close> leaves the alpha sample of every pixel as it was, for every
  buffer and all parameters; the array keeps its length and the image its dimensions.
\<close>

theorem adjust_keeps_alpha:
  "img_data (applyImageAdjustments im adj) ! (4 * p + 3) = img_data im ! (4 * p + 3) \<and>
   length (img_data (applyImageAdjustments im adj)) = length (img_data im) \<and>
   img_width (applyImageAdjustments im adj) = img_width im \<and>
   img_height (applyImageAdjustments im adj) = img_height im"
proof -
  let ?out = "fold (\<lambda>y. fold (adjustStep adj (img_width im) y) [0..<img_width im])
                [0..<img_height im] (img_data im)"
  have "?out ! (4 * p + 3) = img_data im ! (4 * p + 3) \<and> length ?out = length (img_data im)"
    by (rule fold2_invariant [where P = "\<lambda>d. d ! (4 * p + 3) = img_data im ! (4 * p + 3)
          \<and> length d = length (img_data im)"])
       (simp_all add: adjustStep_alpha adjustStep_length)
  then show ?thesis by (simp add: applyImageAdjustments_def Let_def)
qed

lemma roundHalfEven_of_nat: "roundHalfEven (real n) = int n"
  by (simp add: roundHalfEven_def)

lemma clamp255_unit:
  assumes "n \<le> 255"
  shows "clamp255 (real n / 255) = int n"
  using assms by (simp add: clamp255_def)

lemma toUint8Clamp_of_nat:
  assumes "n \<le> 255"
  shows "toUint8Clamp (Some (of_int (clamp255 (real n / 255)))) = word_of_nat n"
proof -
  have "toUint8Clamp (Some (of_int (int n))) = word_of_int (int n)"
    using assms by (auto simp: toUint8Clamp_def roundHalfEven_of_nat)
  then show ?thesis by (simp add: clamp255_unit [OF assms])
qed

lemma toUint8Clamp_of_sample:
  fixes w :: byte
  shows "toUint8Clamp (Some (of_int (clamp255 (unsigned w / 255)))) = w"
proof -
  have le: "unat w \<le> 255"
    using unsigned_less [of w, where 'a = nat] by simp
  have "(unsigned w :: real) = real (unat w)" by simp
  then show ?thesis
    using toUint8Clamp_of_nat [OF le] by simp
qed

text \<open>
  The rounding to 8 bits absorbs any error below half a step: a channel value within
  \<open>1/510\<close> of \<open>n/255\<close> is stored as \<open>n\<close>.
\<close>

lemma clamp255_absorbs_error:
  assumes "n \<le> 255" "\<bar>v - real n / 255\<bar> < 1 / 510"
  shows "clamp255 v = int n"
proof -
  have "v - real n / 255 < 1 / 510" "- (1 / 510) < v - real n / 255"
    using assms(2) by linarith+
  then have "real n - 1 / 2 < v * 255" "v * 255 < real n + 1 / 2"
    by linarith+
  then have "round (v * 255) = int n"
    unfolding round_def by (intro floor_unique) simp_all
  with assms(1) show ?thesis by (simp add: clamp255_def)
qed

lemma adjustPixel_neutral:
  assumes "\<not> greyscale adj" "exposure adj = 0" "contrast adj = 0" "highlights adj = 0"
    "shadows adj = 0" "overlayOpacity adj = 0" "\<not> noiseEnabled adj"
  shows "adjustPixel adj x y (d0, d1, d2) = (d0, d1, d2)"
  using assms by (simp add: adjustPixel_def Let_def toUint8Clamp_of_sample)

text \<open>
  C5. With greyscale off, exposure, contrast, highlights, shadows and overlay opacity 0 and
  noise disabled, \<open>applyImageAdjustments\<close> returns its input image: every sample of every
  pixel is the one read (in exact arithmetic).
\<close>

theorem neutral_adjustments_identity:
  assumes "\<not> greyscale adj" "exposure adj = 0" "contrast adj = 0" "highlights adj = 0"
    "shadows adj = 0" "overlayOpacity adj = 0" "\<not> noiseEnabled adj"
  shows "applyImageAdjustments im adj = im"
proof -
  have step: "adjustStep adj w y x d = d" for w y x d
    by (simp add: adjustStep_def Let_def adjustPixel_neutral [OF assms])
  have "fold (\<lambda>y. fold (adjustStep adj (img_width im) y) [0..<img_width im]) [0..<img_height im]
          (img_data im) = img_data im"
    by (rule fold2_invariant [where P = "\<lambda>d. d = img_data im"]) (simp_all add: step)
  then show ?thesis by (simp add: applyImageAdjustments_def Let_def)
qed

theorem neutral_adjustments_identity_witness:
  "applyImageAdjustments greyPixel DEFAULT_ADJUSTMENTS = greyPixel \<and>
   img_data (applyImageAdjustments greyPixel DEFAULT_ADJUSTMENTS) = [100, 100, 100, 255]"
  using neutral_adjustments_identity [of DEFAULT_ADJUSTMENTS greyPixel]
  by (simp add: DEFAULT_ADJUSTMENTS_def greyPixel_def)

subsection \<open>Halftone screening\<close>

lemma clearStep_replicate: "clearStep k (replicate n 0) = replicate n 0"
proof -
  have u: "(replicate n (0::byte))[i := 0] = replicate n 0" for i
    by (cases "i < n") (auto simp: list_eq_iff_nth_eq nth_list_update)
  show ?thesis by (simp add: clearStep_def u)
qed

lemma cleared_replicate: "fold clearStep ks (replicate n 0) = replicate n 0"
  by (induction ks) (simp_all add: clearStep_replicate)

lemma halftoneStep_length: "length (halftoneStep opts w src y x d) = length d"
  by (simp add: halftoneStep_def Let_def)

lemma halftoneStep_other:
  assumes "j \<noteq> (y * w + x) * 4" "j \<noteq> (y * w + x) * 4 + 1" "j \<noteq> (y * w + x) * 4 + 2"
    "j \<noteq> (y * w + x) * 4 + 3"
  shows "halftoneStep opts w src y x d ! j = d ! j"
  using assms by (simp add: halftoneStep_def Let_def)

lemma halftoneStep_low_alpha:
  assumes "unat (src ! (4 * p + 3)) < 10" "c < 4"
  shows "halftoneStep opts w src y x d ! (4 * p + c) = d ! (4 * p + c)"
proof (cases "y * w + x = p")
  case True
  then have "(y * w + x) * 4 + 3 = 4 * p + 3" by simp
  with assms show ?thesis by (simp add: halftoneStep_def Let_def)
next
  case False
  show ?thesis
    by (rule halftoneStep_other) (use False assms(2) in presburger)+
qed

lemma halftone_low_alpha:
  assumes "unat (img_data im ! (4 * p + 3)) < 10" "c < 4" "p < img_width im * img_height im"
  shows "img_data (applyLinearHalftone im opts) ! (4 * p + c) = 0"
proof -
  let ?n = "4 * img_width im * img_height im"
  let ?out = "fold (\<lambda>y. fold (halftoneStep opts (img_width im) (img_data im) y) [0..<img_width im])
                [0..<img_height im] (replicate ?n 0)"
  have "?out ! (4 * p + c) = replicate ?n 0 ! (4 * p + c)"
    by (rule fold2_invariant [where P = "\<lambda>d. d ! (4 * p + c) = replicate ?n 0 ! (4 * p + c)"])
       (use assms in \<open>simp_all add: halftoneStep_low_alpha\<close>)
  moreover have "4 * p + c < ?n" using assms by simp
  ultimately have "?out ! (4 * p + c) = 0" by simp
  then show ?thesis by (simp add: applyLinearHalftone_def Let_def cleared_replicate)
qed

text \<open>
  C1, as the code has it. For a pixel \<open>p\<close> of the image whose alpha sample is below 10,
  \<open>applyImageAdjustments\<close> leaves each of the four samples as it was, and
  \<open>applyLinearHalftone\<close> writes nothing: each of the four samples of its output is 0.
\<close>

theorem low_alpha_pixels:
  assumes "unat (img_data im ! (4 * p + 3)) < 10" "c < 4" "p < img_width im * img_height im"
  shows "img_data (applyImageAdjustments im adj) ! (4 * p + c) = img_data im ! (4 * p + c) \<and>
         img_data (applyLinearHalftone im opts) ! (4 * p + c) = 0"
  using adjust_low_alpha [OF assms(1,2)] halftone_low_alpha [OF assms] by simp

theorem low_alpha_pixels_witness:
  "unat (img_data lowAlphaPixel ! (4 * 0 + 3)) < 10 \<and>
   img_data (applyImageAdjustments lowAlphaPixel (DEFAULT_ADJUSTMENTS\<lparr>exposure := 1\<rparr>)) ! (4 * 0 + 0) = 255 \<and>
   img_data (applyLinearHalftone lowAlphaPixel defaultHalftone) ! (4 * 0 + 0) = 0"
proof -
  have a: "unat (img_data lowAlphaPixel ! (4 * 0 + 3)) < 10"
    by (simp add: lowAlphaPixel_def)
  have p: "0 < img_width lowAlphaPixel * img_height lowAlphaPixel"
    by (simp add: lowAlphaPixel_def)
  have c: "(0::nat) < 4" by simp
  show ?thesis
    using low_alpha_pixels [OF a c p, of "DEFAULT_ADJUSTMENTS\<lparr>exposure := 1\<rparr>" defaultHalftone] a
    by (simp add: lowAlphaPixel_def)
qed

text \<open>
  C1 as stated fails for \<open>applyLinearHalftone\<close>: the red pixel of alpha 5 comes out as
  transparent black, not as it went in.
\<close>

theorem halftone_drops_low_alpha_pixel:
  "unat (img_data lowAlphaPixel ! 3) < 10 \<and>
   img_data lowAlphaPixel = [255, 0, 0, 5] \<and>
   img_data (applyLinearHalftone lowAlphaPixel defaultHalftone) = [0, 0, 0, 0]"
  by (simp add: applyLinearHalftone_def lowAlphaPixel_def Let_def clearStep_def halftoneStep_def
      replicate4 update3)

lemma halftoneStep_pixel:
  assumes len: "4 * p + 3 < length d"
    and inv: "(d ! (4 * p) = 0 \<and> d ! (4 * p + 1) = 0 \<and> d ! (4 * p + 2) = 0 \<and> d ! (4 * p + 3) = 0) \<or>
              (d ! (4 * p) = toUint8Clamp (fst (lineColor opts)) \<and>
               d ! (4 * p + 1) = toUint8Clamp (fst (snd (lineColor opts))) \<and>
               d ! (4 * p + 2) = toUint8Clamp (snd (snd (lineColor opts))) \<and>
               d ! (4 * p + 3) = src ! (4 * p + 3))"
  shows "(halftoneStep opts w src y x d ! (4 * p) = 0 \<and> halftoneStep opts w src y x d ! (4 * p + 1) = 0 \<and>
          halftoneStep opts w src y x d ! (4 * p + 2) = 0 \<and> halftoneStep opts w src y x d ! (4 * p + 3) = 0) \<or>
         (halftoneStep opts w src y x d ! (4 * p) = toUint8Clamp (fst (lineColor opts)) \<and>
          halftoneStep opts w src y x d ! (4 * p + 1) = toUint8Clamp (fst (snd (lineColor opts))) \<and>
          halftoneStep opts w src y x d ! (4 * p + 2) = toUint8Clamp (snd (snd (lineColor opts))) \<and>
          halftoneStep opts w src y x d ! (4 * p + 3) = src ! (4 * p + 3))"
proof (cases "y * w + x = p")
  case True
  then have i: "(y * w + x) * 4 = 4 * p" by simp
  show ?thesis
    unfolding halftoneStep_def Let_def i
    using len inv by auto
next
  case False
  have "halftoneStep opts w src y x d ! (4 * p + c) = d ! (4 * p + c)" if "c < 4" for c
    by (rule halftoneStep_other) (use False that in presburger)+
  from this [of 0] this [of 1] this [of 2] this [of 3] inv show ?thesis by simp
qed

text \<open>
  C6. For every pixel \<open>p\<close> of the image, the alpha sample of the output of
  \<open>applyLinearHalftone\<close> is 0 or the alpha sample of the source pixel, and when it is not 0
  the three colour samples are the line colour as an 8-bit array stores it.
\<close>

theorem halftone_alpha_and_colour:
  assumes "p < img_width im * img_height im"
  shows "(img_data (applyLinearHalftone im opts) ! (4 * p + 3) = 0 \<or>
          img_data (applyLinearHalftone im opts) ! (4 * p + 3) = img_data im ! (4 * p + 3)) \<and>
         (img_data (applyLinearHalftone im opts) ! (4 * p + 3) \<noteq> 0 \<longrightarrow>
          img_data (applyLinearHalftone im opts) ! (4 * p) = toUint8Clamp (fst (lineColor opts)) \<and>
          img_data (applyLinearHalftone im opts) ! (4 * p + 1) = toUint8Clamp (fst (snd (lineColor opts))) \<and>
          img_data (applyLinearHalftone im opts) ! (4 * p + 2) = toUint8Clamp (snd (snd (lineColor opts))))"
proof -
  let ?n = "4 * img_width im * img_height im"
  let ?src = "img_data im"
  let ?out = "fold (\<lambda>y. fold (halftoneStep opts (img_width im) ?src y) [0..<img_width im])
                [0..<img_height im] (replicate ?n 0)"
  let ?P = "\<lambda>d. length d = ?n \<and>
      ((d ! (4 * p) = 0 \<and> d ! (4 * p + 1) = 0 \<and> d ! (4 * p + 2) = 0 \<and> d ! (4 * p + 3) = 0) \<or>
       (d ! (4 * p) = toUint8Clamp (fst (lineColor opts)) \<and>
        d ! (4 * p + 1) = toUint8Clamp (fst (snd (lineColor opts))) \<and>
        d ! (4 * p + 2) = toUint8Clamp (snd (snd (lineColor opts))) \<and>
        d ! (4 * p + 3) = ?src ! (4 * p + 3)))"
  have lt: "4 * p + 3 < ?n" using assms by simp
  have "?P ?out"
  proof (rule fold2_invariant [where P = ?P])
    fix y x s
    assume s: "?P s"
    then have "4 * p + 3 < length s" using lt by simp
    from halftoneStep_pixel [OF this, of opts ?src "img_width im" y x] s
    show "?P (halftoneStep opts (img_width im) ?src y x s)"
      by (simp add: halftoneStep_length)
  next
    show "?P (replicate ?n 0)" using lt by simp
  qed
  moreover have "img_data (applyLinearHalftone im opts) = ?out"
    by (simp add: applyLinearHalftone_def Let_def cleared_replicate)
  ultimately show ?thesis by auto
qed

lemma thick_line_on_black:
  "img_data (applyLinearHalftone blackPixel thickHalftone) = [255, 255, 255, 255]"
  by (simp add: applyLinearHalftone_def blackPixel_def Let_def clearStep_def halftoneStep_def
      replicate4 update3 inInkBand_def thickHalftone_def defaultHalftone_def hexToRgb_white
      toUint8Clamp_255 js_rem_def js_trunc_def)

theorem halftone_alpha_and_colour_witness:
  "0 < img_width blackPixel * img_height blackPixel \<and>
   img_data (applyLinearHalftone blackPixel thickHalftone) ! (4 * 0 + 3) = img_data blackPixel ! (4 * 0 + 3) \<and>
   img_data (applyLinearHalftone blackPixel thickHalftone) ! (4 * 0 + 3) = 255 \<and>
   img_data (applyLinearHalftone blackPixel thickHalftone) ! (4 * 0) = toUint8Clamp (fst (lineColor thickHalftone))"
proof -
  have p: "0 < img_width blackPixel * img_height blackPixel"
    by (simp add: blackPixel_def)
  have a: "img_data (applyLinearHalftone blackPixel thickHalftone) ! (4 * 0 + 3) = 255"
    by (simp add: thick_line_on_black update3 eval_nat_numeral)
  have b: "img_data blackPixel ! (4 * 0 + 3) = 255"
    by (simp add: blackPixel_def eval_nat_numeral)
  show ?thesis
    using halftone_alpha_and_colour [OF p, of thickHalftone] p a b by simp
qed

subsection \<open>Well-formed buffers and stored colours\<close>

lemma applyLinearHalftone_wf: "wf_image (applyLinearHalftone im opts)"
proof -
  let ?n = "4 * img_width im * img_height im"
  have "length (fold (\<lambda>y. fold (halftoneStep opts (img_width im) (img_data im) y) [0..<img_width im])
                [0..<img_height im] (replicate ?n 0)) = ?n"
    by (rule fold2_invariant [where P = "\<lambda>d. length d = ?n"]) (simp_all add: halftoneStep_length)
  then show ?thesis
    by (simp add: wf_image_def applyLinearHalftone_def Let_def cleared_replicate)
qed

lemma applyImageAdjustments_wf: "wf_image im \<Longrightarrow> wf_image (applyImageAdjustments im adj)"
proof -
  assume wf: "wf_image im"
  have "length (fold (\<lambda>y. fold (adjustStep adj (img_width im) y) [0..<img_width im])
                [0..<img_height im] (img_data im)) = length (img_data im)"
    by (rule fold2_invariant [where P = "\<lambda>d. length d = length (img_data im)"])
       (simp_all add: adjustStep_length)
  with wf show ?thesis
    by (simp add: wf_image_def applyImageAdjustments_def Let_def)
qed

lemma toUint8Clamp_of_int:
  assumes "0 \<le> n" "n \<le> 255"
  shows "uint (toUint8Clamp (Some (of_int n))) = n"
proof -
  have "toUint8Clamp (Some (of_int n)) = word_of_int n"
    using assms by (auto simp: toUint8Clamp_def roundHalfEven_def)
  moreover have "uint (word_of_int n :: byte) = n"
    using assms by (simp add: uint_word_of_int take_bit_int_eq_self)
  ultimately show ?thesis by simp
qed

section \<open>Preview and export\<close>

named_theorems canvas_sel

lemma createCanvas_sel [canvas_sel]:
  "cv_width (createCanvas w h) = w" "cv_height (createCanvas w h) = h"
  "bitmap (createCanvas w h) p = transparent" "has2d (createCanvas w h)"
  "cv_state (createCanvas w h) = defaultDrawState" "cv_saved (createCanvas w h) = []"
  "cv_path (createCanvas w h) = []"
  by (simp_all add: createCanvas_def)

lemma setCanvasWidth_sel [canvas_sel]:
  "cv_width (setCanvasWidth c w) = w" "cv_height (setCanvasWidth c w) = cv_height c"
  "bitmap (setCanvasWidth c w) p = transparent" "has2d (setCanvasWidth c w) = has2d c"
  "cv_state (setCanvasWidth c w) = defaultDrawState" "cv_saved (setCanvasWidth c w) = []"
  "cv_path (setCanvasWidth c w) = []"
  by (simp_all add: setCanvasWidth_def)

lemma setCanvasHeight_sel [canvas_sel]:
  "cv_width (setCanvasHeight c h) = cv_width c" "cv_height (setCanvasHeight c h) = h"
  "bitmap (setCanvasHeight c h) p = transparent" "has2d (setCanvasHeight c h) = has2d c"
  "cv_state (setCanvasHeight c h) = defaultDrawState" "cv_saved (setCanvasHeight c h) = []"
  "cv_path (setCanvasHeight c h) = []"
  by (simp_all add: setCanvasHeight_def)

lemma setTransform_sel [canvas_sel]:
  "cv_width (setTransform c k) = cv_width c" "cv_height (setTransform c k) = cv_height c"
  "bitmap (setTransform c k) = bitmap c" "has2d (setTransform c k) = has2d c"
  "cv_state (setTransform c k) = (cv_state c)\<lparr>ds_scale := k\<rparr>"
  "cv_saved (setTransform c k) = cv_saved c" "cv_path (setTransform c k) = cv_path c"
  by (simp_all add: setTransform_def)

lemma setGlobalCompositeOperation_sel [canvas_sel]:
  "cv_width (setGlobalCompositeOperation c op) = cv_width c"
  "cv_height (setGlobalCompositeOperation c op) = cv_height c"
  "bitmap (setGlobalCompositeOperation c op) = bitmap c"
  "has2d (setGlobalCompositeOperation c op) = has2d c"
  "cv_state (setGlobalCompositeOperation c op) = (cv_state c)\<lparr>globalCompositeOperation := op\<rparr>"
  "cv_saved (setGlobalCompositeOperation c op) = cv_saved c"
  "cv_path (setGlobalCompositeOperation c op) = cv_path c"
  by (simp_all add: setGlobalCompositeOperation_def)

lemma setFillStyle_sel [canvas_sel]:
  "cv_width (setFillStyle c s) = cv_width c" "cv_height (setFillStyle c s) = cv_height c"
  "bitmap (setFillStyle c s) = bitmap c" "has2d (setFillStyle c s) = has2d c"
  "cv_state (setFillStyle c s) =
     (case parseColor s of None \<Rightarrow> cv_state c | Some col \<Rightarrow> (cv_state c)\<lparr>fillStyle := col\<rparr>)"
  "cv_saved (setFillStyle c s) = cv_saved c" "cv_path (setFillStyle c s) = cv_path c"
  by (simp_all add: setFillStyle_def split: option.splits)

lemma setStrokeStyle_sel [canvas_sel]:
  "cv_width (setStrokeStyle c s) = cv_width c" "cv_height (setStrokeStyle c s) = cv_height c"
  "bitmap (setStrokeStyle c s) = bitmap c" "has2d (setStrokeStyle c s) = has2d c"
  "cv_state (setStrokeStyle c s) = (cv_state c)\<lparr>strokeStyle := s\<rparr>"
  "cv_saved (setStrokeStyle c s) = cv_saved c" "cv_path (setStrokeStyle c s) = cv_path c"
  by (simp_all add: setStrokeStyle_def)

lemma setLineWidth_sel [canvas_sel]:
  "cv_width (setLineWidth c v) = cv_width c" "cv_height (setLineWidth c v) = cv_height c"
  "bitmap (setLineWidth c v) = bitmap c" "has2d (setLineWidth c v) = has2d c"
  "cv_state (setLineWidth c v) = (cv_state c)\<lparr>lineWidth := v\<rparr>"
  "cv_saved (setLineWidth c v) = cv_saved c" "cv_path (setLineWidth c v) = cv_path c"
  by (simp_all add: setLineWidth_def)

lemma setLineDash_sel [canvas_sel]:
  "cv_width (setLineDash c v) = cv_width c" "cv_height (setLineDash c v) = cv_height c"
  "bitmap (setLineDash c v) = bitmap c" "has2d (setLineDash c v) = has2d c"
  "cv_state (setLineDash c v) = (cv_state c)\<lparr>lineDash := v\<rparr>"
  "cv_saved (setLineDash c v) = cv_saved c" "cv_path (setLineDash c v) = cv_path c"
  by (simp_all add: setLineDash_def)

lemma save_sel [canvas_sel]:
  "cv_width (save c) = cv_width c" "cv_height (save c) = cv_height c"
  "bitmap (save c) = bitmap c" "has2d (save c) = has2d c"
  "cv_state (save c) = cv_state c"
  "cv_saved (save c) = cv_state c # cv_saved c" "cv_path (save c) = cv_path c"
  by (simp_all add: save_def)

lemma restore_sel [canvas_sel]:
  "cv_width (restore c) = cv_width c" "cv_height (restore c) = cv_height c"
  "bitmap (restore c) = bitmap c" "has2d (restore c) = has2d c"
  "cv_state (restore c) = (case cv_saved c of [] \<Rightarrow> cv_state c | g # rest \<Rightarrow> g)"
  "cv_saved (restore c) = tl (cv_saved c)" "cv_path (restore c) = cv_path c"
  by (simp_all add: restore_def split: list.splits)

lemma paint_sel [canvas_sel]:
  "cv_width (paint c r s) = cv_width c" "cv_height (paint c r s) = cv_height c"
  "bitmap (paint c r s) p =
     (if inBounds c p \<and> ds_clip (cv_state c) p \<and> r p
      then composite (globalCompositeOperation (cv_state c)) (bitmap c p) (s p)
      else bitmap c p)"
  "has2d (paint c r s) = has2d c" "cv_state (paint c r s) = cv_state c"
  "cv_saved (paint c r s) = cv_saved c" "cv_path (paint c r s) = cv_path c"
  by (simp_all add: paint_def)

lemma clearRect_sel [canvas_sel]:
  "cv_width (clearRect c x y w h) = cv_width c" "cv_height (clearRect c x y w h) = cv_height c"
  "bitmap (clearRect c x y w h) p =
     (if inBounds c p \<and> ds_clip (cv_state c) p \<and> inRect x y w h (toUser c p)
      then transparent else bitmap c p)"
  "has2d (clearRect c x y w h) = has2d c" "cv_state (clearRect c x y w h) = cv_state c"
  "cv_saved (clearRect c x y w h) = cv_saved c" "cv_path (clearRect c x y w h) = cv_path c"
  by (simp_all add: clearRect_def)

lemma beginPath_sel [canvas_sel]:
  "cv_width (beginPath c) = cv_width c" "cv_height (beginPath c) = cv_height c"
  "bitmap (beginPath c) = bitmap c" "has2d (beginPath c) = has2d c"
  "cv_state (beginPath c) = cv_state c"
  "cv_saved (beginPath c) = cv_saved c" "cv_path (beginPath c) = []"
  by (simp_all add: beginPath_def)

lemma addSubpath_sel [canvas_sel]:
  "cv_width (addSubpath c sp) = cv_width c" "cv_height (addSubpath c sp) = cv_height c"
  "bitmap (addSubpath c sp) = bitmap c" "has2d (addSubpath c sp) = has2d c"
  "cv_state (addSubpath c sp) = cv_state c"
  "cv_saved (addSubpath c sp) = cv_saved c"
  "cv_path (addSubpath c sp) = cv_path c @ [scaleSubpath (ds_scale (cv_state c)) sp]"
  by (simp_all add: addSubpath_def)

lemma clip_sel [canvas_sel]:
  "cv_width (clip c) = cv_width c" "cv_height (clip c) = cv_height c"
  "bitmap (clip c) = bitmap c" "has2d (clip c) = has2d c"
  "cv_state (clip c) = (cv_state c)\<lparr>ds_clip := (\<lambda>p. ds_clip (cv_state c) p \<and> inPath c p)\<rparr>"
  "cv_saved (clip c) = cv_saved c" "cv_path (clip c) = cv_path c"
  by (simp_all add: clip_def)

lemma inBounds_cong:
  "cv_width c = cv_width c' \<Longrightarrow> cv_height c = cv_height c' \<Longrightarrow> inBounds c p = inBounds c' p"
  by (simp add: inBounds_def)




lemma drawMaskShape_eq: "drawMaskShape c m s = addSubpath c (maskSubpath m s)"
  by (simp add: drawMaskShape_def maskSubpath_def Let_def split: Shape.splits)

lemma fold_drawMaskShape:
  "fold (\<lambda>m c. drawMaskShape c m s) ms c =
     c\<lparr>cv_path := cv_path c @ map (\<lambda>m. scaleSubpath (ds_scale (cv_state c)) (maskSubpath m s)) ms\<rparr>"
  by (induction ms arbitrary: c) (simp_all add: drawMaskShape_eq addSubpath_def)

lemma fold_drawMaskShape_sel [canvas_sel]:
  "cv_width (fold (\<lambda>m c. drawMaskShape c m s) ms c) = cv_width c"
  "cv_height (fold (\<lambda>m c. drawMaskShape c m s) ms c) = cv_height c"
  "bitmap (fold (\<lambda>m c. drawMaskShape c m s) ms c) = bitmap c"
  "has2d (fold (\<lambda>m c. drawMaskShape c m s) ms c) = has2d c"
  "cv_state (fold (\<lambda>m c. drawMaskShape c m s) ms c) = cv_state c"
  "cv_saved (fold (\<lambda>m c. drawMaskShape c m s) ms c) = cv_saved c"
  "cv_path (fold (\<lambda>m c. drawMaskShape c m s) ms c) =
     cv_path c @ map (\<lambda>m. scaleSubpath (ds_scale (cv_state c)) (maskSubpath m s)) ms"
  by (simp_all add: fold_drawMaskShape)

lemma inPath_sel [canvas_sel]: "inPath c p = list_ex (\<lambda>sp. inside sp p) (cv_path c)"
  by (simp add: inPath_def)

lemma fillRect_sel [canvas_sel]:
  "cv_width (fillRect c x y w h) = cv_width c" "cv_height (fillRect c x y w h) = cv_height c"
  "bitmap (fillRect c x y w h) p =
     (if inBounds c p \<and> ds_clip (cv_state c) p \<and> inRect x y w h (toUser c p)
      then composite (globalCompositeOperation (cv_state c)) (bitmap c p) (fillStyle (cv_state c))
      else bitmap c p)"
  "has2d (fillRect c x y w h) = has2d c" "cv_state (fillRect c x y w h) = cv_state c"
  "cv_saved (fillRect c x y w h) = cv_saved c" "cv_path (fillRect c x y w h) = cv_path c"
  by (simp_all add: fillRect_def canvas_sel)

lemma drawImageScaled_sel [canvas_sel]:
  "cv_width (drawImageScaled c img dx dy dw dh) = cv_width c"
  "cv_height (drawImageScaled c img dx dy dw dh) = cv_height c"
  "bitmap (drawImageScaled c img dx dy dw dh) p =
     (if inBounds c p \<and> ds_clip (cv_state c) p \<and> inRect dx dy dw dh (toUser c p)
      then composite (globalCompositeOperation (cv_state c)) (bitmap c p)
             (imageOf img ((fst (toUser c p) - dx) * real (cv_width img) / dw,
                           (snd (toUser c p) - dy) * real (cv_height img) / dh))
      else bitmap c p)"
  "has2d (drawImageScaled c img dx dy dw dh) = has2d c"
  "cv_state (drawImageScaled c img dx dy dw dh) = cv_state c"
  "cv_saved (drawImageScaled c img dx dy dw dh) = cv_saved c"
  "cv_path (drawImageScaled c img dx dy dw dh) = cv_path c"
  by (simp_all add: drawImageScaled_def canvas_sel)

lemma drawImage_sel [canvas_sel]:
  "cv_width (drawImage c img dx dy) = cv_width c"
  "cv_height (drawImage c img dx dy) = cv_height c"
  "bitmap (drawImage c img dx dy) p =
     bitmap (drawImageScaled c img dx dy (real (cv_width img)) (real (cv_height img))) p"
  "has2d (drawImage c img dx dy) = has2d c"
  "cv_state (drawImage c img dx dy) = cv_state c"
  "cv_saved (drawImage c img dx dy) = cv_saved c"
  "cv_path (drawImage c img dx dy) = cv_path c"
  by (simp_all add: drawImage_def canvas_sel)

lemma toUser_cong:
  "ds_scale (cv_state c1) = ds_scale (cv_state c2) \<Longrightarrow> toUser c1 p = toUser c2 p"
  by (simp add: toUser_def)







lemma stroke_sel [canvas_sel]:
  "cv_width (stroke sp c) = cv_width c" "cv_height (stroke sp c) = cv_height c"
  "has2d (stroke sp c) = has2d c" "cv_state (stroke sp c) = cv_state c"
  "cv_saved (stroke sp c) = cv_saved c" "cv_path (stroke sp c) = cv_path c"
  by (simp_all add: stroke_def canvas_sel)

lemma strokeRect_sel [canvas_sel]:
  "cv_width (strokeRect sp c x y w h) = cv_width c" "cv_height (strokeRect sp c x y w h) = cv_height c"
  "has2d (strokeRect sp c x y w h) = has2d c" "cv_state (strokeRect sp c x y w h) = cv_state c"
  "cv_saved (strokeRect sp c x y w h) = cv_saved c" "cv_path (strokeRect sp c x y w h) = cv_path c"
  by (simp_all add: strokeRect_def canvas_sel)

lemma drawMaskShape_sel [canvas_sel]:
  "cv_width (drawMaskShape c m s) = cv_width c" "cv_height (drawMaskShape c m s) = cv_height c"
  "bitmap (drawMaskShape c m s) = bitmap c" "has2d (drawMaskShape c m s) = has2d c"
  "cv_state (drawMaskShape c m s) = cv_state c" "cv_saved (drawMaskShape c m s) = cv_saved c"
  by (simp_all add: drawMaskShape_eq canvas_sel)

lemma tiles_keep_saved:
  "cv_saved (fold (\<lambda>ty. fold (\<lambda>tx c. fillRect (setFillStyle c (f tx ty)) tx ty 8 8) xs) ys c) =
     cv_saved c"
  by (rule fold2_invariant [where P = "\<lambda>d. cv_saved d = cv_saved c"]) (simp_all add: canvas_sel)

lemma handles_keep_saved:
  "cv_saved (fold (\<lambda>h c. strokeRect sp
       (setLineWidth (setStrokeStyle (fillRect (setFillStyle c a) (hp_x h - 4) (hp_y h - 4) 8 8) b) 1)
       (hp_x h - 4) (hp_y h - 4) 8 8) hs c) = cv_saved c"
  by (rule fold_invariant [where Q = "\<lambda>_. True" and P = "\<lambda>d. cv_saved d = cv_saved c"])
     (simp_all add: canvas_sel)

lemma layerPass_state:
  "ds_clip (cv_state (layerPass c b m ms mw mh dw dh s)) = ds_clip (cv_state c)"
  "fillStyle (cv_state (layerPass c b m ms mw mh dw dh s)) = fillStyle (cv_state c)"
  "globalCompositeOperation (cv_state c) = SourceOver \<Longrightarrow>
     globalCompositeOperation (cv_state (layerPass c b m ms mw mh dw dh s)) = SourceOver"
  by (cases b; cases m; simp add: layerPass_def Let_def canvas_sel)+

text \<open>A frame that starts on an idle context leaves an idle context to the next frame.\<close>

lemma renderFrame_keeps_idle:
  assumes "has2d c" "idleContext c"
  shows "\<exists>c'. mainCanvas (renderFrame sp dpr cw c ic st) = Some c' \<and> idleContext c'"
proof -
  have reset: "idleContext (setCanvasHeight (setCanvasWidth c w) h)" for w h
    by (simp add: idleContext_def canvas_sel defaultDrawState_def)
  show ?thesis
    unfolding renderFrame_def Let_def
    using assms reset
    by (auto simp: idleContext_def canvas_sel tiles_keep_saved handles_keep_saved
        split: option.splits)
qed




end
